theory Spec2Isabelle
  imports Complex_Main
begin

section \<open>Python strings\<close>

text \<open>
  A Python \<open>str\<close> is modelled as a \<open>string\<close>: every \<open>char\<close> stands for the code
  point of the same number, so the model covers the strings over the code points
  0 to 255. On that range \<open>isspace\<close>, \<open>lower\<close> and \<open>strip\<close> below are the
  ones of Python's \<open>str\<close>.
\<close>

definition isspace :: "char \<Rightarrow> bool" where
  "isspace c =
     (let n = (of_char c :: nat)
      in (9 \<le> n \<and> n \<le> 13) \<or> (28 \<le> n \<and> n \<le> 32) \<or> n = 133 \<or> n = 160)"

definition lower_char :: "char \<Rightarrow> char" where
  "lower_char c =
     (let n = (of_char c :: nat)
      in if (65 \<le> n \<and> n \<le> 90) \<or> (192 \<le> n \<and> n \<le> 222 \<and> n \<noteq> 215)
         then char_of (n + 32) else c)"

definition lower :: "string \<Rightarrow> string" where
  "lower s = map lower_char s"

definition strip :: "string \<Rightarrow> string" where
  "strip s = rev (dropWhile isspace (rev (dropWhile isspace s)))"

fun startswith :: "string \<Rightarrow> string \<Rightarrow> bool" where
  "startswith s [] = True"
| "startswith [] (p # ps) = False"
| "startswith (x # xs) (p # ps) = (x = p \<and> startswith xs ps)"

text \<open>\<open>contains p s\<close> is Python's \<open>p in s\<close> on strings.\<close>

fun contains :: "string \<Rightarrow> string \<Rightarrow> bool" where
  "contains p [] = (p = [])"
| "contains p (x # xs) = (startswith (x # xs) p \<or> contains p xs)"

text \<open>\<open>a or b\<close> where \<open>a\<close> is an optional string: \<open>None\<close> and \<open>''\<close> are falsy.\<close>

definition truthy :: "string option \<Rightarrow> bool" where
  "truthy a = (case a of None \<Rightarrow> False | Some s \<Rightarrow> s \<noteq> [])"

definition py_or :: "string option \<Rightarrow> string \<Rightarrow> string" where
  "py_or a b = (if truthy a then the a else b)"

section \<open>Provider configuration\<close>

record provider_config =
  base_url :: string
  models :: "(string \<times> string) list"

definition PROVIDER_CONFIGS :: "(string \<times> provider_config) list" where
  "PROVIDER_CONFIGS =
     [(''openai'',
       \<lparr>base_url = ''https://api.openai.com/v1'',
        models = [(''chat'', ''gpt-3.5-turbo''),
                  (''chat_advanced'', ''gpt-4'')]\<rparr>),
      (''openrouter'',
       \<lparr>base_url = ''https://openrouter.ai/api/v1'',
        models = [(''chat'', ''microsoft/wizardlm-2-8x22b''),
                  (''chat_advanced'', ''anthropic/claude-3.5-sonnet''),
                  (''chat_fast'', ''meta-llama/llama-3.1-8b-instruct:free'')]\<rparr>)]"

text \<open>\<open>d.get(k, default)\<close> on a dictionary kept as an association list.\<close>

definition dict_get :: "('k \<times> 'v) list \<Rightarrow> 'k \<Rightarrow> 'v \<Rightarrow> 'v" where
  "dict_get d k dflt = (case map_of d k of None \<Rightarrow> dflt | Some v \<Rightarrow> v)"

section \<open>The client library\<close>

text \<open>
  The \<open>openai\<close> package is outside the repository. Its two entry points are
  parameters of the model: the constructor \<open>OpenAI\<close>, which builds a client handle of
  an arbitrary type \<open>'c\<close> or raises, and the method \<open>chat.completions.create\<close>,
  which answers a call on a handle with a response object or raises.

  What a call raises is one of three things: \<open>Exception s\<close>, an instance of class
  \<open>Exception\<close> whose \<open>str()\<close> is \<open>s\<close>; \<open>Unprintable e\<close>, an instance of class
  \<open>Exception\<close> whose \<open>__str__\<close> raises \<open>e\<close>; and \<open>BaseException s\<close>, an instance
  of \<open>BaseException\<close> outside class \<open>Exception\<close>, such as \<open>KeyboardInterrupt\<close> or
  \<open>SystemExit\<close>.
\<close>

datatype exn = Exception string | Unprintable exn | BaseException string

text \<open>The test of an \<open>except Exception\<close> clause.\<close>

fun isinstance_Exception :: "exn \<Rightarrow> bool" where
  "isinstance_Exception (Exception s) = True"
| "isinstance_Exception (Unprintable e) = True"
| "isinstance_Exception (BaseException s) = False"

text \<open>
  \<open>str(error)\<close>, and \<open>error\<close> formatted in an f-string: the text, or the exception
  that \<open>__str__\<close> raises.
\<close>

fun py_str :: "exn \<Rightarrow> exn + string" where
  "py_str (Exception s) = Inr s"
| "py_str (Unprintable e) = Inl e"
| "py_str (BaseException s) = Inr s"

record openai_kwargs =
  api_key :: string
  client_base_url :: "string option"
  default_headers :: "(string \<times> string) list"

type_synonym message = "(string \<times> string) list"

record create_kwargs =
  kw_model :: string
  kw_messages :: "message list"
  kw_temperature :: "real option"
  kw_max_tokens :: int

text \<open>
  The library's \<open>CompletionUsage\<close> object is kept as the dictionary that its
  \<open>model_dump()\<close> returns; the keys of that dictionary depend on the version of the
  library.
\<close>

datatype json = JNone | JInt int | JDict "(string \<times> json) list"

record completion_usage =
  dumped :: "(string \<times> json) list"

definition model_dump :: "completion_usage \<Rightarrow> (string \<times> json) list" where
  "model_dump u = dumped u"

record choice =
  message_content :: "string option"
  finish_reason :: "string option"

record response =
  choices :: "choice list"
  usage :: "completion_usage option"

text \<open>
  The constructor returns a handle (\<open>Inr\<close>) or raises an exception that the
  \<open>except Exception\<close> clause of \<open>_initialize_clients\<close> catches and logs (\<open>Inl\<close>, with
  its text).
\<close>

type_synonym 'c constructor = "openai_kwargs \<Rightarrow> string + 'c"
type_synonym 'c transport = "'c \<Rightarrow> create_kwargs \<Rightarrow> exn + response"

text \<open>The calls issued to the provider clients so far, oldest first.\<close>

type_synonym 'c calls = "('c \<times> create_kwargs) list"

section \<open>AIResponse\<close>

datatype payload =
  Completion string "(string \<times> json) list option" "string option"
| Flag bool

record AIResponse =
  success :: bool
  data :: "payload option"
  error :: "string option"
  provider :: "string option"
  model :: "string option"
  code :: "string option"
  timestamp :: "string option"

section \<open>AIService\<close>

record 'c AIService =
  openai_client :: "'c option"
  openrouter_client :: "'c option"
  active_provider :: "string option"

text \<open>The dictionary \<open>{'client': ..., 'provider_name': ...}\<close> of \<open>_get_client\<close>.\<close>

record 'c client_info =
  ci_client :: 'c
  ci_provider_name :: string

text \<open>\<open>KEY and KEY.strip()\<close> for an environment variable that may be unset.\<close>

definition key_present :: "string option \<Rightarrow> bool" where
  "key_present k = (truthy k \<and> truthy (Some (strip (the k))))"

definition initialize_clients ::
  "'c constructor \<Rightarrow> string option \<Rightarrow> string option \<Rightarrow> 'c AIService \<Rightarrow> 'c AIService" where
  "initialize_clients OpenAI OPENAI_API_KEY OPENROUTER_API_KEY self =
     (let self1 =
        (if key_present OPENAI_API_KEY
         then (case OpenAI \<lparr>api_key = the OPENAI_API_KEY, client_base_url = None,
                            default_headers = []\<rparr> of
                 Inr c \<Rightarrow> self\<lparr>openai_client := Some c\<rparr>
               | Inl e \<Rightarrow> self)
         else self);
          self2 =
        (if key_present OPENROUTER_API_KEY
         then (case OpenAI \<lparr>api_key = the OPENROUTER_API_KEY,
                            client_base_url =
                              map_option base_url (map_of PROVIDER_CONFIGS ''openrouter''),
                            default_headers =
                              [(''HTTP-Referer'', ''https://your-app-domain.com''),
                               (''X-Title'', ''Your App Name'')]\<rparr> of
                 Inr c \<Rightarrow> self1\<lparr>openrouter_client := Some c\<rparr>
               | Inl e \<Rightarrow> self1)
         else self1)
      in if openrouter_client self2 \<noteq> None
         then self2\<lparr>active_provider := Some ''openrouter''\<rparr>
         else if openai_client self2 \<noteq> None
         then self2\<lparr>active_provider := Some ''openai''\<rparr>
         else self2\<lparr>active_provider := None\<rparr>)"

definition AIService_init ::
  "'c constructor \<Rightarrow> string option \<Rightarrow> string option \<Rightarrow> 'c AIService" where
  "AIService_init OpenAI OPENAI_API_KEY OPENROUTER_API_KEY =
     initialize_clients OpenAI OPENAI_API_KEY OPENROUTER_API_KEY
       \<lparr>openai_client = None, openrouter_client = None, active_provider = None\<rparr>"

definition get_client :: "'c AIService \<Rightarrow> string \<Rightarrow> 'c client_info option" where
  "get_client self prov =
     (let target_provider = (if prov = ''auto'' then active_provider self else Some prov)
      in if target_provider = Some ''openai'' \<and> openai_client self \<noteq> None
         then Some \<lparr>ci_client = the (openai_client self), ci_provider_name = ''openai''\<rparr>
         else if target_provider = Some ''openrouter'' \<and> openrouter_client self \<noteq> None
         then Some \<lparr>ci_client = the (openrouter_client self), ci_provider_name = ''openrouter''\<rparr>
         else None)"

definition get_model :: "string \<Rightarrow> string \<Rightarrow> string" where
  "get_model prov model_type =
     (let ms = (case map_of PROVIDER_CONFIGS prov of None \<Rightarrow> [] | Some config \<Rightarrow> models config)
      in dict_get ms model_type (dict_get ms ''chat'' ''gpt-3.5-turbo''))"

text \<open>The argument \<open>now\<close> is the value of \<open>datetime.now().isoformat()\<close>.\<close>

definition create_error_response ::
  "string \<Rightarrow> string \<Rightarrow> string option \<Rightarrow> string option \<Rightarrow> AIResponse" where
  "create_error_response now err prov cd =
     \<lparr>success = False, data = None, error = Some err, provider = prov, model = None,
      code = cd, timestamp = Some now\<rparr>"

definition create_success_response ::
  "string \<Rightarrow> payload \<Rightarrow> string \<Rightarrow> string \<Rightarrow> AIResponse" where
  "create_success_response now d prov mdl =
     \<lparr>success = True, data = Some d, error = None, provider = Some prov, model = Some mdl,
      code = None, timestamp = Some now\<rparr>"

text \<open>
  A \<open>try\<close> block with one \<open>except Exception\<close> clause: the body's value and the
  calls it made, or the handler's on an instance of \<open>Exception\<close> that the body raised;
  any other exception of the body leaves the block. An exception that the handler
  raises leaves it too.
\<close>

definition try_except ::
  "(exn + 'a) \<times> 'l \<Rightarrow> (exn \<Rightarrow> 'l \<Rightarrow> (exn + 'a) \<times> 'l) \<Rightarrow> (exn + 'a) \<times> 'l" where
  "try_except body handler =
     (case body of
        (Inl e, l) \<Rightarrow> if isinstance_Exception e then handler e l else (Inl e, l)
      | (Inr v, l) \<Rightarrow> (Inr v, l))"

text \<open>
  Lines 193 to 212, the same in both completion operations: the call and the reading
  of its reply. An exception of the call leaves the block.
\<close>

definition completion_body ::
  "'c transport \<Rightarrow> string \<Rightarrow> 'c \<Rightarrow> string \<Rightarrow> string \<Rightarrow> message list \<Rightarrow> real \<Rightarrow> int \<Rightarrow>
   'c calls \<Rightarrow> (exn + AIResponse) \<times> 'c calls" where
  "completion_body create now cl provider_name selected_model messages temperature max_tokens trace =
     (let kwargs = \<lparr>kw_model = selected_model, kw_messages = messages,
                     kw_temperature = Some temperature, kw_max_tokens = max_tokens\<rparr>;
          trace' = trace @ [(cl, kwargs)]
      in case create cl kwargs of
           Inl e \<Rightarrow> (Inl e, trace')
         | Inr resp \<Rightarrow>
             (let content = (if choices resp \<noteq> [] then message_content (hd (choices resp))
                             else None)
              in if truthy content
                 then (Inr (create_success_response now
                              (Completion (strip (the content))
                                 (if usage resp \<noteq> None then Some (model_dump (the (usage resp)))
                                  else None)
                                 (if choices resp \<noteq> [] then finish_reason (hd (choices resp))
                                  else None))
                              provider_name selected_model), trace')
                 else (Inr (create_error_response now ''No content returned from AI service''
                              (Some provider_name) None), trace')))"

definition chat_completion ::
  "'c transport \<Rightarrow> 'c AIService \<Rightarrow> string \<Rightarrow> message list \<Rightarrow> string \<Rightarrow> string option \<Rightarrow>
   real \<Rightarrow> int \<Rightarrow> 'c calls \<Rightarrow> (exn + AIResponse) \<times> 'c calls" where
  "chat_completion create self now messages prov mdl temperature max_tokens trace =
     (case get_client self prov of
        None \<Rightarrow>
          (Inr (create_error_response now
                  ''No AI provider available. Please configure API keys in .env file.''
                  None None), trace)
      | Some ci \<Rightarrow>
          (let cl = ci_client ci;
               provider_name = ci_provider_name ci;
               selected_model = py_or mdl (get_model provider_name ''chat'')
           in try_except
                (completion_body create now cl provider_name selected_model messages
                   temperature max_tokens trace)
                (\<lambda>e trace'. case py_str e of
                   Inl e' \<Rightarrow> (Inl e', trace')
                 | Inr error_str \<Rightarrow>
                   if contains ''401'' error_str \<or> contains ''invalid'' (lower error_str)
                   then (Inr (create_error_response now
                                ''Invalid API key. Please check your credentials.''
                                (Some provider_name) (Some ''INVALID_API_KEY'')), trace')
                   else if contains ''429'' error_str \<or> contains ''rate limit'' (lower error_str)
                   then (Inr (create_error_response now
                                ''Rate limit exceeded. Please try again later.''
                                (Some provider_name) (Some ''RATE_LIMIT'')), trace')
                   else if list_ex (\<lambda>c. contains c error_str) [''500'', ''502'', ''503'']
                   then (Inr (create_error_response now
                                ''AI service temporarily unavailable. Please try again.''
                                (Some provider_name) (Some ''SERVICE_UNAVAILABLE'')), trace')
                   else (Inr (create_error_response now error_str
                                (Some provider_name) (Some ''UNKNOWN_ERROR'')), trace'))))"

definition chat_completion_sync ::
  "'c transport \<Rightarrow> 'c AIService \<Rightarrow> string \<Rightarrow> message list \<Rightarrow> string \<Rightarrow> string option \<Rightarrow>
   real \<Rightarrow> int \<Rightarrow> 'c calls \<Rightarrow> (exn + AIResponse) \<times> 'c calls" where
  "chat_completion_sync create self now messages prov mdl temperature max_tokens trace =
     (case get_client self prov of
        None \<Rightarrow>
          (Inr (create_error_response now
                  ''No AI provider available. Please configure API keys in .env file.''
                  None None), trace)
      | Some ci \<Rightarrow>
          (let cl = ci_client ci;
               provider_name = ci_provider_name ci;
               selected_model = py_or mdl (get_model provider_name ''chat'')
           in try_except
                (completion_body create now cl provider_name selected_model messages
                   temperature max_tokens trace)
                (\<lambda>e trace'. case py_str e of
                   Inl e' \<Rightarrow> (Inl e', trace')
                 | Inr error_str \<Rightarrow>
                   (Inr (create_error_response now error_str
                           (Some provider_name) (Some ''REQUEST_FAILED'')), trace'))))"

definition validate_provider ::
  "'c transport \<Rightarrow> 'c AIService \<Rightarrow> string \<Rightarrow> string \<Rightarrow> 'c calls \<Rightarrow>
   (exn + AIResponse) \<times> 'c calls" where
  "validate_provider create self now prov trace =
     (case get_client self prov of
        None \<Rightarrow>
          (Inr (create_error_response now
                  (''Provider '' @ prov @ '' not available or not configured'')
                  None None), trace)
      | Some ci \<Rightarrow>
          try_except
            (let cl = ci_client ci;
                 provider_name = ci_provider_name ci;
                 mdl = get_model provider_name ''chat'';
                 kwargs = \<lparr>kw_model = mdl,
                           kw_messages = [[(''role'', ''user''), (''content'', ''Hello'')]],
                           kw_temperature = None, kw_max_tokens = 5\<rparr>;
                 trace' = trace @ [(cl, kwargs)]
             in case create cl kwargs of
                  Inl e \<Rightarrow> (Inl e, trace')
                | Inr resp \<Rightarrow>
                    if choices resp \<noteq> [] \<and> truthy (message_content (hd (choices resp)))
                    then (Inr (create_success_response now (Flag True) provider_name mdl), trace')
                    else (Inr (create_error_response now ''Provider validation failed''
                                 (Some provider_name) None), trace'))
            (\<lambda>e trace'. case py_str e of
               Inl e' \<Rightarrow> (Inl e', trace')
             | Inr err \<Rightarrow>
               (Inr (create_error_response now (''Provider validation failed: '' @ err)
                       (Some prov) (Some ''VALIDATION_FAILED'')), trace')))"

section \<open>Example inputs\<close>

text \<open>
  Services with one or both handles, transports that raise or reply the same way on
  every call, a one-message conversation, and two client constructors, one of which
  fails on a given key. The handles are numbers.
\<close>

definition openai_only :: "nat AIService" where
  "openai_only =
     \<lparr>openai_client = Some 1, openrouter_client = None, active_provider = Some ''openai''\<rparr>"

definition both_clients :: "nat AIService" where
  "both_clients =
     \<lparr>openai_client = Some 1, openrouter_client = Some 2,
      active_provider = Some ''openrouter''\<rparr>"

definition openrouter_only :: "nat AIService" where
  "openrouter_only =
     \<lparr>openai_client = None, openrouter_client = Some 2,
      active_provider = Some ''openrouter''\<rparr>"

definition raising :: "string \<Rightarrow> nat transport" where
  "raising s cl kw = Inl (Exception s)"

definition failing :: "exn \<Rightarrow> nat transport" where
  "failing e cl kw = Inl e"

definition replying :: "response \<Rightarrow> nat transport" where
  "replying r cl kw = Inr r"

definition reply_with :: "string option \<Rightarrow> response" where
  "reply_with c =
     \<lparr>choices = [\<lparr>message_content = c, finish_reason = Some ''stop''\<rparr>], usage = None\<rparr>"

definition no_choices :: response where
  "no_choices = \<lparr>choices = [], usage = None\<rparr>"

definition hello :: "message list" where
  "hello = [[(''role'', ''user''), (''content'', ''Hello'')]]"

definition OpenAI_ok :: "nat constructor" where
  "OpenAI_ok kw = Inr (length (api_key kw))"

definition OpenAI_rejects :: "string \<Rightarrow> nat constructor" where
  "OpenAI_rejects k kw =
     (if api_key kw = k then Inl ''Connection error.'' else Inr (length (api_key kw)))"

section \<open>Facts about Python strings\<close>

lemma startswith_iff: "startswith s p \<longleftrightarrow> (\<exists>w. s = p @ w)"
  by (induction s p rule: startswith.induct) auto

lemma contains_iff: "contains p s \<longleftrightarrow> (\<exists>u w. s = u @ p @ w)"
proof (induction s)
  case Nil
  show ?case by auto
next
  case (Cons x xs)
  show ?case
  proof
    assume "contains p (x # xs)"
    then consider "startswith (x # xs) p" | "contains p xs" by auto
    then show "\<exists>u w. x # xs = u @ p @ w"
    proof cases
      case 1
      then obtain w where "x # xs = p @ w" by (auto simp: startswith_iff)
      then have "x # xs = [] @ p @ w" by simp
      then show ?thesis by blast
    next
      case 2
      with Cons obtain u w where "xs = u @ p @ w" by blast
      then have "x # xs = (x # u) @ p @ w" by simp
      then show ?thesis by blast
    qed
  next
    assume "\<exists>u w. x # xs = u @ p @ w"
    then obtain u w where e: "x # xs = u @ p @ w" by blast
    show "contains p (x # xs)"
    proof (cases u)
      case Nil
      with e have "startswith (x # xs) p" unfolding startswith_iff by simp
      then show ?thesis by simp
    next
      case (Cons y u')
      with e have "xs = u' @ p @ w" by simp
      with Cons.IH show ?thesis by auto
    qed
  qed
qed

lemma contains_lower_iff:
  "contains p (lower s) \<longleftrightarrow> (\<exists>u v w. s = u @ v @ w \<and> lower v = p)"
proof
  assume "contains p (lower s)"
  then obtain a b where "map lower_char s = a @ p @ b"
    unfolding contains_iff lower_def by blast
  then obtain u vw where s: "s = u @ vw" and "map lower_char vw = p @ b"
    by (metis map_eq_append_conv)
  then obtain v w where "vw = v @ w" and "map lower_char v = p"
    by (metis map_eq_append_conv)
  with s show "\<exists>u v w. s = u @ v @ w \<and> lower v = p"
    unfolding lower_def by blast
next
  assume "\<exists>u v w. s = u @ v @ w \<and> lower v = p"
  then obtain u v w where "s = u @ v @ w" and "lower v = p" by blast
  then have "lower s = lower u @ p @ lower w" by (simp add: lower_def)
  then show "contains p (lower s)" unfolding contains_iff by blast
qed

lemma strip_decomp:
  "s = takeWhile isspace s @ strip s @ rev (takeWhile isspace (rev (dropWhile isspace s)))"
proof -
  let ?d = "dropWhile isspace s"
  have "strip s @ rev (takeWhile isspace (rev ?d))
          = rev (takeWhile isspace (rev ?d) @ dropWhile isspace (rev ?d))"
    by (simp only: strip_def rev_append)
  also have "\<dots> = ?d" by (simp only: takeWhile_dropWhile_id rev_rev_ident)
  finally have "?d = strip s @ rev (takeWhile isspace (rev ?d))" by simp
  moreover have "s = takeWhile isspace s @ ?d" by simp
  ultimately show ?thesis by simp
qed

lemma strip_no_leading: "strip s = x # t \<Longrightarrow> \<not> isspace x"
proof -
  assume a: "strip s = x # t"
  let ?d = "dropWhile isspace s"
  have "?d = strip s @ rev (takeWhile isspace (rev ?d))"
    using strip_decomp [of s] by (metis same_append_eq takeWhile_dropWhile_id)
  with a have "?d = x # (t @ rev (takeWhile isspace (rev ?d)))" by simp
  then show ?thesis by (metis hd_dropWhile list.sel(1) list.distinct(1))
qed

lemma strip_no_trailing: "strip s = t @ [x] \<Longrightarrow> \<not> isspace x"
proof -
  assume a: "strip s = t @ [x]"
  let ?r = "rev (dropWhile isspace s)"
  from a have "dropWhile isspace ?r = x # rev t"
    unfolding strip_def by (metis rev.simps(2) rev_rev_ident rev_append append_Nil rev_singleton_conv rev_swap)
  then show ?thesis by (metis hd_dropWhile list.sel(1) list.distinct(1))
qed

lemma strip_all_space: "list_all isspace s \<Longrightarrow> strip s = []"
proof -
  assume "list_all isspace s"
  then have "dropWhile isspace s = []" by (metis dropWhile_eq_Nil_conv list_all_iff)
  then show ?thesis by (simp only: strip_def rev.simps dropWhile.simps)
qed

section \<open>The call each operation issues\<close>

lemma completion_body_trace:
  "snd (completion_body create now cl pn sm messages temperature max_tokens trace) =
     trace @ [(cl, \<lparr>kw_model = sm, kw_messages = messages,
                     kw_temperature = Some temperature, kw_max_tokens = max_tokens\<rparr>)]"
  by (simp add: completion_body_def Let_def split: sum.split)

lemma completion_body_raise:
  "create cl \<lparr>kw_model = sm, kw_messages = messages,
              kw_temperature = Some temperature, kw_max_tokens = max_tokens\<rparr> = Inl e \<Longrightarrow>
   fst (completion_body create now cl pn sm messages temperature max_tokens trace) = Inl e"
  by (simp add: completion_body_def Let_def)

lemma completion_body_content:
  assumes "create cl \<lparr>kw_model = sm, kw_messages = messages,
                     kw_temperature = Some temperature, kw_max_tokens = max_tokens\<rparr> = Inr resp"
    and "choices resp = ch # rest"
    and "message_content ch = Some c"
    and "c \<noteq> []"
  shows "completion_body create now cl pn sm messages temperature max_tokens trace =
           (Inr \<lparr>success = True,
                  data = Some (Completion (strip c) (map_option model_dump (usage resp))
                                 (finish_reason ch)),
                  error = None, provider = Some pn, model = Some sm, code = None,
                  timestamp = Some now\<rparr>,
            trace @ [(cl, \<lparr>kw_model = sm, kw_messages = messages,
                            kw_temperature = Some temperature, kw_max_tokens = max_tokens\<rparr>)])"
  using assms
  by (cases "usage resp")
    (simp_all add: completion_body_def Let_def truthy_def create_success_response_def)

lemma completion_body_no_content:
  assumes "create cl \<lparr>kw_model = sm, kw_messages = messages,
                     kw_temperature = Some temperature, kw_max_tokens = max_tokens\<rparr> = Inr resp"
    and "choices resp = [] \<or> message_content (hd (choices resp)) = None \<or>
         message_content (hd (choices resp)) = Some []"
  shows "completion_body create now cl pn sm messages temperature max_tokens trace =
           (Inr \<lparr>success = False, data = None,
                  error = Some ''No content returned from AI service'',
                  provider = Some pn, model = None, code = None, timestamp = Some now\<rparr>,
            trace @ [(cl, \<lparr>kw_model = sm, kw_messages = messages,
                            kw_temperature = Some temperature, kw_max_tokens = max_tokens\<rparr>)])"
proof -
  from assms(2) have "\<not> truthy (if choices resp \<noteq> [] then message_content (hd (choices resp))
                                 else None)"
    by (auto simp: truthy_def)
  with assms(1) show ?thesis
    by (simp add: completion_body_def Let_def create_error_response_def)
qed

lemma try_except_snd:
  "(\<And>e l. snd (handler e l) = l) \<Longrightarrow> snd (try_except body handler) = snd body"
  by (cases body) (auto simp: try_except_def split: sum.split)

lemma try_except_Inr:
  "fst body = Inr v \<Longrightarrow> try_except body handler = body"
  by (cases body) (auto simp: try_except_def)

lemma try_except_Inl:
  "fst body = Inl e \<Longrightarrow>
   try_except body handler = (if isinstance_Exception e then handler e (snd body) else body)"
  by (cases body) (auto simp: try_except_def)

lemma chat_completion_sync_trace:
  "snd (chat_completion_sync create self now messages prov mdl temperature max_tokens trace) =
     (case get_client self prov of
        None \<Rightarrow> trace
      | Some ci \<Rightarrow>
          trace @ [(ci_client ci,
                    \<lparr>kw_model = py_or mdl (get_model (ci_provider_name ci) ''chat''),
                     kw_messages = messages, kw_temperature = Some temperature,
                     kw_max_tokens = max_tokens\<rparr>)])"
  by (simp add: chat_completion_sync_def Let_def try_except_snd completion_body_trace
        split: option.split sum.split)

lemma chat_completion_trace:
  "snd (chat_completion create self now messages prov mdl temperature max_tokens trace) =
     (case get_client self prov of
        None \<Rightarrow> trace
      | Some ci \<Rightarrow>
          trace @ [(ci_client ci,
                    \<lparr>kw_model = py_or mdl (get_model (ci_provider_name ci) ''chat''),
                     kw_messages = messages, kw_temperature = Some temperature,
                     kw_max_tokens = max_tokens\<rparr>)])"
  by (simp add: chat_completion_def Let_def try_except_snd completion_body_trace
        split: option.split sum.split)

lemma chat_completion_sync_reply:
  assumes "get_client self prov = Some ci"
    and "create (ci_client ci)
           \<lparr>kw_model = py_or mdl (get_model (ci_provider_name ci) ''chat''),
            kw_messages = messages, kw_temperature = Some temperature,
            kw_max_tokens = max_tokens\<rparr> = Inr resp"
  shows "chat_completion_sync create self now messages prov mdl temperature max_tokens trace =
           completion_body create now (ci_client ci) (ci_provider_name ci)
             (py_or mdl (get_model (ci_provider_name ci) ''chat''))
             messages temperature max_tokens trace"
proof -
  have "\<exists>v. fst (completion_body create now (ci_client ci) (ci_provider_name ci)
             (py_or mdl (get_model (ci_provider_name ci) ''chat''))
             messages temperature max_tokens trace) = Inr v"
    using assms(2) by (simp add: completion_body_def Let_def)
  then show ?thesis
    using assms(1) by (auto simp: chat_completion_sync_def Let_def try_except_Inr)
qed

lemma chat_completion_reply:
  assumes "get_client self prov = Some ci"
    and "create (ci_client ci)
           \<lparr>kw_model = py_or mdl (get_model (ci_provider_name ci) ''chat''),
            kw_messages = messages, kw_temperature = Some temperature,
            kw_max_tokens = max_tokens\<rparr> = Inr resp"
  shows "chat_completion create self now messages prov mdl temperature max_tokens trace =
           completion_body create now (ci_client ci) (ci_provider_name ci)
             (py_or mdl (get_model (ci_provider_name ci) ''chat''))
             messages temperature max_tokens trace"
proof -
  have "\<exists>v. fst (completion_body create now (ci_client ci) (ci_provider_name ci)
             (py_or mdl (get_model (ci_provider_name ci) ''chat''))
             messages temperature max_tokens trace) = Inr v"
    using assms(2) by (simp add: completion_body_def Let_def)
  then show ?thesis
    using assms(1) by (auto simp: chat_completion_def Let_def try_except_Inr)
qed

text \<open>What the two handlers do with the exception \<open>e\<close> that the issued call raised.\<close>

lemma chat_completion_sync_raise:
  assumes "get_client self prov = Some ci"
    and "create (ci_client ci)
           \<lparr>kw_model = py_or mdl (get_model (ci_provider_name ci) ''chat''),
            kw_messages = messages, kw_temperature = Some temperature,
            kw_max_tokens = max_tokens\<rparr> = Inl e"
  shows "fst (chat_completion_sync create self now messages prov mdl temperature max_tokens trace) =
           (if isinstance_Exception e
            then case py_str e of
                   Inl e' \<Rightarrow> Inl e'
                 | Inr s \<Rightarrow> Inr (create_error_response now s (Some (ci_provider_name ci))
                                  (Some ''REQUEST_FAILED''))
            else Inl e)"
  using assms
  by (simp add: chat_completion_sync_def Let_def try_except_Inl completion_body_raise
        split: sum.split)

lemma chat_completion_raise:
  assumes "get_client self prov = Some ci"
    and "create (ci_client ci)
           \<lparr>kw_model = py_or mdl (get_model (ci_provider_name ci) ''chat''),
            kw_messages = messages, kw_temperature = Some temperature,
            kw_max_tokens = max_tokens\<rparr> = Inl e"
  shows "fst (chat_completion create self now messages prov mdl temperature max_tokens trace) =
           (if isinstance_Exception e
            then case py_str e of
                   Inl e' \<Rightarrow> Inl e'
                 | Inr s \<Rightarrow>
                     Inr (if contains ''401'' s \<or> contains ''invalid'' (lower s)
                          then create_error_response now
                                 ''Invalid API key. Please check your credentials.''
                                 (Some (ci_provider_name ci)) (Some ''INVALID_API_KEY'')
                          else if contains ''429'' s \<or> contains ''rate limit'' (lower s)
                          then create_error_response now
                                 ''Rate limit exceeded. Please try again later.''
                                 (Some (ci_provider_name ci)) (Some ''RATE_LIMIT'')
                          else if contains ''500'' s \<or> contains ''502'' s \<or> contains ''503'' s
                          then create_error_response now
                                 ''AI service temporarily unavailable. Please try again.''
                                 (Some (ci_provider_name ci)) (Some ''SERVICE_UNAVAILABLE'')
                          else create_error_response now s
                                 (Some (ci_provider_name ci)) (Some ''UNKNOWN_ERROR''))
            else Inl e)"
  using assms
  by (simp add: chat_completion_def Let_def try_except_Inl completion_body_raise
        split: sum.split)

lemma no_client_sync:
  "get_client self prov = None \<Longrightarrow>
   chat_completion_sync create self now messages prov mdl temperature max_tokens trace =
     (Inr (create_error_response now
             ''No AI provider available. Please configure API keys in .env file.''
             None None), trace)"
  by (simp add: chat_completion_sync_def)

lemma no_client_async:
  "get_client self prov = None \<Longrightarrow>
   chat_completion create self now messages prov mdl temperature max_tokens trace =
     (Inr (create_error_response now
             ''No AI provider available. Please configure API keys in .env file.''
             None None), trace)"
  by (simp add: chat_completion_def)

lemma get_client_cases:
  "get_client self prov = Some ci \<Longrightarrow>
     (ci_provider_name ci = ''openai'' \<and> openai_client self = Some (ci_client ci)) \<or>
     (ci_provider_name ci = ''openrouter'' \<and> openrouter_client self = Some (ci_client ci))"
  by (auto simp: get_client_def Let_def split: if_splits)

lemmas run_simps =
  chat_completion_def chat_completion_sync_def validate_provider_def get_client_def
  get_model_def PROVIDER_CONFIGS_def dict_get_def py_or_def truthy_def try_except_def
  completion_body_def create_error_response_def create_success_response_def Let_def
  openai_only_def openrouter_only_def both_clients_def raising_def failing_def replying_def
  reply_with_def no_choices_def hello_def strip_def isspace_def

section \<open>Provider selection\<close>

lemma openrouter_base_url:
  "map_option base_url (map_of PROVIDER_CONFIGS ''openrouter'')
     = Some ''https://openrouter.ai/api/v1''"
  by (simp add: PROVIDER_CONFIGS_def)

lemma init_openai_client:
  "openai_client (AIService_init OpenAI OPENAI_API_KEY OPENROUTER_API_KEY) =
     (if key_present OPENAI_API_KEY
      then (case OpenAI \<lparr>api_key = the OPENAI_API_KEY, client_base_url = None,
                          default_headers = []\<rparr> of
              Inr c \<Rightarrow> Some c | Inl e \<Rightarrow> None)
      else None)"
  unfolding AIService_init_def initialize_clients_def Let_def
  by (simp split: sum.split)

lemma init_openrouter_client:
  "openrouter_client (AIService_init OpenAI OPENAI_API_KEY OPENROUTER_API_KEY) =
     (if key_present OPENROUTER_API_KEY
      then (case OpenAI \<lparr>api_key = the OPENROUTER_API_KEY,
                          client_base_url = Some ''https://openrouter.ai/api/v1'',
                          default_headers =
                            [(''HTTP-Referer'', ''https://your-app-domain.com''),
                             (''X-Title'', ''Your App Name'')]\<rparr> of
              Inr c \<Rightarrow> Some c | Inl e \<Rightarrow> None)
      else None)"
  unfolding AIService_init_def initialize_clients_def Let_def openrouter_base_url
  by (simp split: sum.split)

lemma init_active_provider:
  "active_provider (AIService_init OpenAI OPENAI_API_KEY OPENROUTER_API_KEY) =
     (if openrouter_client (AIService_init OpenAI OPENAI_API_KEY OPENROUTER_API_KEY) \<noteq> None
      then Some ''openrouter''
      else if openai_client (AIService_init OpenAI OPENAI_API_KEY OPENROUTER_API_KEY) \<noteq> None
      then Some ''openai''
      else None)"
  by (simp add: AIService_init_def initialize_clients_def Let_def split: sum.split)

text \<open>
  C7. After \<open>__init__\<close>, for every pair of credentials and every behaviour of the client
  constructor: the OpenRouter handle exists exactly when the OpenRouter key is present
  (set and not blank) and the constructor returns a handle for it, and likewise the
  OpenAI handle; the active provider is \<open>openrouter\<close> when the OpenRouter handle
  exists, otherwise \<open>openai\<close> when the OpenAI handle exists, otherwise none; and a
  request with provider \<open>auto\<close> resolves to the handle of exactly that provider.
\<close>

theorem active_provider_preference:
  "(let s = AIService_init OpenAI OPENAI_API_KEY OPENROUTER_API_KEY
    in openrouter_client s =
         (if key_present OPENROUTER_API_KEY
          then (case OpenAI \<lparr>api_key = the OPENROUTER_API_KEY,
                              client_base_url = Some ''https://openrouter.ai/api/v1'',
                              default_headers =
                                [(''HTTP-Referer'', ''https://your-app-domain.com''),
                                 (''X-Title'', ''Your App Name'')]\<rparr> of
                  Inr c \<Rightarrow> Some c | Inl e \<Rightarrow> None)
          else None) \<and>
       openai_client s =
         (if key_present OPENAI_API_KEY
          then (case OpenAI \<lparr>api_key = the OPENAI_API_KEY, client_base_url = None,
                              default_headers = []\<rparr> of
                  Inr c \<Rightarrow> Some c | Inl e \<Rightarrow> None)
          else None) \<and>
       active_provider s =
         (if openrouter_client s \<noteq> None then Some ''openrouter''
          else if openai_client s \<noteq> None then Some ''openai''
          else None) \<and>
       get_client s ''auto'' =
         (if openrouter_client s \<noteq> None
          then Some \<lparr>ci_client = the (openrouter_client s), ci_provider_name = ''openrouter''\<rparr>
          else if openai_client s \<noteq> None
          then Some \<lparr>ci_client = the (openai_client s), ci_provider_name = ''openai''\<rparr>
          else None) \<and>
       map_option ci_provider_name (get_client s ''auto'') = active_provider s)"
proof -
  let ?s = "AIService_init OpenAI OPENAI_API_KEY OPENROUTER_API_KEY"
  have "openrouter_client ?s =
         (if key_present OPENROUTER_API_KEY
          then (case OpenAI \<lparr>api_key = the OPENROUTER_API_KEY,
                              client_base_url = Some ''https://openrouter.ai/api/v1'',
                              default_headers =
                                [(''HTTP-Referer'', ''https://your-app-domain.com''),
                                 (''X-Title'', ''Your App Name'')]\<rparr> of
                  Inr c \<Rightarrow> Some c | Inl e \<Rightarrow> None)
          else None)"
    by (rule init_openrouter_client)
  moreover have "openai_client ?s =
         (if key_present OPENAI_API_KEY
          then (case OpenAI \<lparr>api_key = the OPENAI_API_KEY, client_base_url = None,
                              default_headers = []\<rparr> of
                  Inr c \<Rightarrow> Some c | Inl e \<Rightarrow> None)
          else None)"
    by (rule init_openai_client)
  moreover have "active_provider ?s =
         (if openrouter_client ?s \<noteq> None then Some ''openrouter''
          else if openai_client ?s \<noteq> None then Some ''openai''
          else None)"
    by (rule init_active_provider)
  moreover have "get_client ?s ''auto'' =
         (if openrouter_client ?s \<noteq> None
          then Some \<lparr>ci_client = the (openrouter_client ?s), ci_provider_name = ''openrouter''\<rparr>
          else if openai_client ?s \<noteq> None
          then Some \<lparr>ci_client = the (openai_client ?s), ci_provider_name = ''openai''\<rparr>
          else None)"
    and "map_option ci_provider_name (get_client ?s ''auto'') = active_provider ?s"
    by (simp_all add: get_client_def Let_def init_active_provider)
  ultimately show ?thesis unfolding Let_def by (intro conjI)
qed

lemma key_present_examples:
  "key_present (Some ''sk-a'')" "key_present (Some ''sk-or-1'')" "\<not> key_present (Some ''  '')"
  "\<not> key_present None"
  by (simp_all add: key_present_def truthy_def strip_def isspace_def)

theorem active_provider_preference_witness:
  "AIService_init OpenAI_ok (Some ''sk-a'') (Some ''sk-or-1'')
     = \<lparr>openai_client = Some 4, openrouter_client = Some 7,
        active_provider = Some ''openrouter''\<rparr> \<and>
   get_client (AIService_init OpenAI_ok (Some ''sk-a'') (Some ''sk-or-1'')) ''auto''
     = Some \<lparr>ci_client = 7, ci_provider_name = ''openrouter''\<rparr> \<and>
   AIService_init (OpenAI_rejects ''sk-or-1'') (Some ''sk-a'') (Some ''sk-or-1'')
     = \<lparr>openai_client = Some 4, openrouter_client = None, active_provider = Some ''openai''\<rparr> \<and>
   get_client (AIService_init (OpenAI_rejects ''sk-or-1'') (Some ''sk-a'') (Some ''sk-or-1''))
       ''auto''
     = Some \<lparr>ci_client = 4, ci_provider_name = ''openai''\<rparr> \<and>
   AIService_init OpenAI_ok (Some ''  '') None
     = \<lparr>openai_client = None, openrouter_client = None, active_provider = None\<rparr>"
proof -
  note a = active_provider_preference [of OpenAI_ok "Some ''sk-a''" "Some ''sk-or-1''",
      unfolded Let_def]
  note b = active_provider_preference [of "OpenAI_rejects ''sk-or-1''" "Some ''sk-a''"
      "Some ''sk-or-1''", unfolded Let_def]
  note c = active_provider_preference [of OpenAI_ok "Some ''  ''" None, unfolded Let_def]
  have a': "openrouter_client (AIService_init OpenAI_ok (Some ''sk-a'') (Some ''sk-or-1''))
        = Some 7"
      "openai_client (AIService_init OpenAI_ok (Some ''sk-a'') (Some ''sk-or-1'')) = Some 4"
    using a by (simp_all add: key_present_examples OpenAI_ok_def)
  have b': "openrouter_client
        (AIService_init (OpenAI_rejects ''sk-or-1'') (Some ''sk-a'') (Some ''sk-or-1'')) = None"
      "openai_client
        (AIService_init (OpenAI_rejects ''sk-or-1'') (Some ''sk-a'') (Some ''sk-or-1'')) = Some 4"
    using b by (simp_all add: key_present_examples OpenAI_rejects_def)
  have c': "openrouter_client (AIService_init OpenAI_ok (Some ''  '') None) = None"
      "openai_client (AIService_init OpenAI_ok (Some ''  '') None) = None"
    using c by (simp_all add: key_present_examples)
  have e: "s = \<lparr>openai_client = openai_client s, openrouter_client = openrouter_client s,
      active_provider = active_provider s\<rparr>" for s :: "nat AIService"
    by simp
  from a a' have a'': "active_provider (AIService_init OpenAI_ok (Some ''sk-a'') (Some ''sk-or-1''))
      = Some ''openrouter''"
    "get_client (AIService_init OpenAI_ok (Some ''sk-a'') (Some ''sk-or-1'')) ''auto''
      = Some \<lparr>ci_client = 7, ci_provider_name = ''openrouter''\<rparr>"
    by simp_all
  from b b' have b'': "active_provider
        (AIService_init (OpenAI_rejects ''sk-or-1'') (Some ''sk-a'') (Some ''sk-or-1''))
      = Some ''openai''"
    "get_client (AIService_init (OpenAI_rejects ''sk-or-1'') (Some ''sk-a'') (Some ''sk-or-1''))
        ''auto''
      = Some \<lparr>ci_client = 4, ci_provider_name = ''openai''\<rparr>"
    by simp_all
  from c c' have c'': "active_provider (AIService_init OpenAI_ok (Some ''  '') None) = None"
    by simp
  have s1: "AIService_init OpenAI_ok (Some ''sk-a'') (Some ''sk-or-1'')
      = \<lparr>openai_client = Some 4, openrouter_client = Some 7,
         active_provider = Some ''openrouter''\<rparr>"
    using e [of "AIService_init OpenAI_ok (Some ''sk-a'') (Some ''sk-or-1'')"]
    by (simp only: a' a'')
  have s2: "AIService_init (OpenAI_rejects ''sk-or-1'') (Some ''sk-a'') (Some ''sk-or-1'')
      = \<lparr>openai_client = Some 4, openrouter_client = None,
         active_provider = Some ''openai''\<rparr>"
    using e [of "AIService_init (OpenAI_rejects ''sk-or-1'') (Some ''sk-a'') (Some ''sk-or-1'')"]
    by (simp only: b' b'')
  have s3: "AIService_init OpenAI_ok (Some ''  '') None
      = \<lparr>openai_client = None, openrouter_client = None, active_provider = None\<rparr>"
    using e [of "AIService_init OpenAI_ok (Some ''  '') None"]
    by (simp only: c' c'')
  from s1 a''(2) s2 b''(2) s3 show ?thesis by (intro conjI)
qed

section \<open>The gateway boundary\<close>

text \<open>
  C4, as stated, fails. When the provider call is interrupted by \<open>KeyboardInterrupt\<close>,
  which is not an instance of \<open>Exception\<close>, both completion operations let it through
  to the caller; and when the call raises an instance of \<open>Exception\<close> whose
  \<open>__str__\<close> raises, the handler's own formatting of it raises, and that exception
  leaves the operation.
\<close>

theorem exception_escapes_completion:
  "chat_completion (failing (BaseException ''KeyboardInterrupt'')) openai_only ''t0'' hello
     ''auto'' None (7/10) 2000 []
     = (Inl (BaseException ''KeyboardInterrupt''),
        [(1, \<lparr>kw_model = ''gpt-3.5-turbo'', kw_messages = hello,
               kw_temperature = Some (7/10), kw_max_tokens = 2000\<rparr>)]) \<and>
   chat_completion_sync (failing (BaseException ''KeyboardInterrupt'')) openai_only ''t0'' hello
     ''auto'' None (7/10) 2000 []
     = (Inl (BaseException ''KeyboardInterrupt''),
        [(1, \<lparr>kw_model = ''gpt-3.5-turbo'', kw_messages = hello,
               kw_temperature = Some (7/10), kw_max_tokens = 2000\<rparr>)]) \<and>
   fst (chat_completion (failing (Unprintable (Exception ''bad __str__''))) openai_only ''t0''
          hello ''auto'' None (7/10) 2000 [])
     = Inl (Exception ''bad __str__'') \<and>
   fst (chat_completion_sync (failing (Unprintable (Exception ''bad __str__''))) openai_only
          ''t0'' hello ''auto'' None (7/10) 2000 [])
     = Inl (Exception ''bad __str__'')"
  by (simp add: run_simps)

text \<open>
  C4, amended. For every service state and every request, both completion operations
  return an \<open>AIResponse\<close> when no handle is resolved, when the issued call gets a reply,
  and when it raises an instance of \<open>Exception\<close> whose \<open>str()\<close> returns. An exception
  of the call that is not an instance of \<open>Exception\<close> leaves the operation unchanged, and
  so does the exception raised by the \<open>__str__\<close> of an instance of \<open>Exception\<close>. These
  are all the outcomes of the call.
\<close>

theorem completion_returns_envelope:
  "(get_client self prov = None \<longrightarrow>
      (\<exists>env. chat_completion create self now messages prov mdl temperature max_tokens trace
               = (Inr env, trace)) \<and>
      (\<exists>env. chat_completion_sync create self now messages prov mdl temperature max_tokens trace
               = (Inr env, trace))) \<and>
   (\<forall>ci kw. get_client self prov = Some ci \<and>
      kw = \<lparr>kw_model = py_or mdl (get_model (ci_provider_name ci) ''chat''),
            kw_messages = messages, kw_temperature = Some temperature,
            kw_max_tokens = max_tokens\<rparr> \<longrightarrow>
      (\<forall>resp. create (ci_client ci) kw = Inr resp \<longrightarrow>
         (\<exists>env. chat_completion create self now messages prov mdl temperature max_tokens trace
                  = (Inr env, trace @ [(ci_client ci, kw)])) \<and>
         (\<exists>env. chat_completion_sync create self now messages prov mdl temperature max_tokens
                    trace
                  = (Inr env, trace @ [(ci_client ci, kw)]))) \<and>
      (\<forall>s. create (ci_client ci) kw = Inl (Exception s) \<longrightarrow>
         (\<exists>env. chat_completion create self now messages prov mdl temperature max_tokens trace
                  = (Inr env, trace @ [(ci_client ci, kw)])) \<and>
         (\<exists>env. chat_completion_sync create self now messages prov mdl temperature max_tokens
                    trace
                  = (Inr env, trace @ [(ci_client ci, kw)]))) \<and>
      (\<forall>b. create (ci_client ci) kw = Inl (BaseException b) \<longrightarrow>
         chat_completion create self now messages prov mdl temperature max_tokens trace
           = (Inl (BaseException b), trace @ [(ci_client ci, kw)]) \<and>
         chat_completion_sync create self now messages prov mdl temperature max_tokens trace
           = (Inl (BaseException b), trace @ [(ci_client ci, kw)])) \<and>
      (\<forall>e. create (ci_client ci) kw = Inl (Unprintable e) \<longrightarrow>
         chat_completion create self now messages prov mdl temperature max_tokens trace
           = (Inl e, trace @ [(ci_client ci, kw)]) \<and>
         chat_completion_sync create self now messages prov mdl temperature max_tokens trace
           = (Inl e, trace @ [(ci_client ci, kw)])))"
proof (intro conjI allI impI)
  assume "get_client self prov = None"
  then show "\<exists>env. chat_completion create self now messages prov mdl temperature max_tokens trace
      = (Inr env, trace)"
    and "\<exists>env. chat_completion_sync create self now messages prov mdl temperature max_tokens trace
      = (Inr env, trace)"
    by (simp_all add: no_client_sync no_client_async)
next
  fix ci kw
  assume a: "get_client self prov = Some ci \<and>
      kw = \<lparr>kw_model = py_or mdl (get_model (ci_provider_name ci) ''chat''),
            kw_messages = messages, kw_temperature = Some temperature,
            kw_max_tokens = max_tokens\<rparr>"
  then have ci: "get_client self prov = Some ci" by simp
  have t: "snd (chat_completion create self now messages prov mdl temperature max_tokens trace)
      = trace @ [(ci_client ci, kw)]"
    "snd (chat_completion_sync create self now messages prov mdl temperature max_tokens trace)
      = trace @ [(ci_client ci, kw)]"
    using a by (simp_all add: chat_completion_trace chat_completion_sync_trace)
  {
    fix resp
    assume r: "create (ci_client ci) kw = Inr resp"
    then have r': "create (ci_client ci)
        \<lparr>kw_model = py_or mdl (get_model (ci_provider_name ci) ''chat''),
         kw_messages = messages, kw_temperature = Some temperature,
         kw_max_tokens = max_tokens\<rparr> = Inr resp"
      using a by simp
    have "\<exists>v. fst (completion_body create now (ci_client ci) (ci_provider_name ci)
             (py_or mdl (get_model (ci_provider_name ci) ''chat''))
             messages temperature max_tokens trace) = Inr v"
      using r' by (simp add: completion_body_def Let_def)
    then have "\<exists>v. fst (chat_completion create self now messages prov mdl temperature max_tokens
          trace) = Inr v"
      and "\<exists>v. fst (chat_completion_sync create self now messages prov mdl temperature max_tokens
          trace) = Inr v"
      using chat_completion_reply [where create = create, OF ci r']
        chat_completion_sync_reply [where create = create, OF ci r']
      by simp_all
    with t show "\<exists>env. chat_completion create self now messages prov mdl temperature max_tokens
        trace = (Inr env, trace @ [(ci_client ci, kw)])"
      and "\<exists>env. chat_completion_sync create self now messages prov mdl temperature max_tokens
        trace = (Inr env, trace @ [(ci_client ci, kw)])"
      by (auto simp: prod_eq_iff)
  }
  {
    fix s
    assume "create (ci_client ci) kw = Inl (Exception s)"
    then have r': "create (ci_client ci)
        \<lparr>kw_model = py_or mdl (get_model (ci_provider_name ci) ''chat''),
         kw_messages = messages, kw_temperature = Some temperature,
         kw_max_tokens = max_tokens\<rparr> = Inl (Exception s)"
      using a by simp
    from chat_completion_raise [where create = create, OF ci r']
      chat_completion_sync_raise [where create = create, OF ci r']
    have "\<exists>v. fst (chat_completion create self now messages prov mdl temperature max_tokens
          trace) = Inr v"
      and "\<exists>v. fst (chat_completion_sync create self now messages prov mdl temperature max_tokens
          trace) = Inr v"
      by simp_all
    with t show "\<exists>env. chat_completion create self now messages prov mdl temperature max_tokens
        trace = (Inr env, trace @ [(ci_client ci, kw)])"
      and "\<exists>env. chat_completion_sync create self now messages prov mdl temperature max_tokens
        trace = (Inr env, trace @ [(ci_client ci, kw)])"
      by (auto simp: prod_eq_iff)
  }
  {
    fix b
    assume "create (ci_client ci) kw = Inl (BaseException b)"
    then have r': "create (ci_client ci)
        \<lparr>kw_model = py_or mdl (get_model (ci_provider_name ci) ''chat''),
         kw_messages = messages, kw_temperature = Some temperature,
         kw_max_tokens = max_tokens\<rparr> = Inl (BaseException b)"
      using a by simp
    from chat_completion_raise [where create = create, OF ci r']
      chat_completion_sync_raise [where create = create, OF ci r'] t
    show "chat_completion create self now messages prov mdl temperature max_tokens trace
        = (Inl (BaseException b), trace @ [(ci_client ci, kw)])"
      and "chat_completion_sync create self now messages prov mdl temperature max_tokens trace
        = (Inl (BaseException b), trace @ [(ci_client ci, kw)])"
      by (simp_all add: prod_eq_iff)
  }
  {
    fix e
    assume "create (ci_client ci) kw = Inl (Unprintable e)"
    then have r': "create (ci_client ci)
        \<lparr>kw_model = py_or mdl (get_model (ci_provider_name ci) ''chat''),
         kw_messages = messages, kw_temperature = Some temperature,
         kw_max_tokens = max_tokens\<rparr> = Inl (Unprintable e)"
      using a by simp
    from chat_completion_raise [where create = create, OF ci r']
      chat_completion_sync_raise [where create = create, OF ci r'] t
    show "chat_completion create self now messages prov mdl temperature max_tokens trace
        = (Inl e, trace @ [(ci_client ci, kw)])"
      and "chat_completion_sync create self now messages prov mdl temperature max_tokens trace
        = (Inl e, trace @ [(ci_client ci, kw)])"
      by (simp_all add: prod_eq_iff)
  }
qed

theorem completion_returns_envelope_witness:
  "(\<exists>env. chat_completion (raising ''Connection error.'') openai_only ''t0'' hello ''auto''
            None (7/10) 2000 []
          = (Inr env,
             [] @ [(1, \<lparr>kw_model = ''gpt-3.5-turbo'', kw_messages = hello,
                         kw_temperature = Some (7/10), kw_max_tokens = 2000\<rparr>)])) \<and>
   (\<exists>env. chat_completion_sync (raising ''Connection error.'') openai_only ''t0'' hello ''auto''
            None (7/10) 2000 []
          = (Inr env,
             [] @ [(1, \<lparr>kw_model = ''gpt-3.5-turbo'', kw_messages = hello,
                         kw_temperature = Some (7/10), kw_max_tokens = 2000\<rparr>)])) \<and>
   (\<exists>env. chat_completion (replying no_choices) openai_only ''t0'' hello ''auto''
            None (7/10) 2000 []
          = (Inr env,
             [] @ [(1, \<lparr>kw_model = ''gpt-3.5-turbo'', kw_messages = hello,
                         kw_temperature = Some (7/10), kw_max_tokens = 2000\<rparr>)])) \<and>
   (\<exists>env. chat_completion_sync (replying no_choices) openai_only ''t0'' hello ''auto''
            None (7/10) 2000 []
          = (Inr env,
             [] @ [(1, \<lparr>kw_model = ''gpt-3.5-turbo'', kw_messages = hello,
                         kw_temperature = Some (7/10), kw_max_tokens = 2000\<rparr>)]))"
proof -
  let ?ci = "\<lparr>ci_client = 1 :: nat, ci_provider_name = ''openai''\<rparr>"
  let ?kw = "\<lparr>kw_model = ''gpt-3.5-turbo'', kw_messages = hello,
              kw_temperature = Some (7/10), kw_max_tokens = 2000\<rparr>"
  have g: "get_client openai_only ''auto'' = Some ?ci \<and>
      ?kw = \<lparr>kw_model = py_or None (get_model (ci_provider_name ?ci) ''chat''),
             kw_messages = hello, kw_temperature = Some (7/10), kw_max_tokens = 2000\<rparr>"
    by (simp add: get_client_def openai_only_def py_or_def truthy_def get_model_def
          PROVIDER_CONFIGS_def dict_get_def)
  have r: "raising ''Connection error.'' (ci_client ?ci) ?kw
      = Inl (Exception ''Connection error.'')"
    by (simp add: raising_def)
  have p: "replying no_choices (ci_client ?ci) ?kw = Inr no_choices"
    by (simp add: replying_def)
  note a = completion_returns_envelope [where create = "raising ''Connection error.''"
      and self = openai_only and prov = "''auto''" and now = "''t0''" and trace = "[]"
      and mdl = None and messages = hello and temperature = "7/10" and max_tokens = 2000,
      THEN conjunct2, THEN spec, THEN spec, THEN mp, OF g,
      THEN conjunct2, THEN conjunct1, THEN spec, THEN mp, OF r]
  note b = completion_returns_envelope [where create = "replying no_choices"
      and self = openai_only and prov = "''auto''" and now = "''t0''" and trace = "[]"
      and mdl = None and messages = hello and temperature = "7/10" and max_tokens = 2000,
      THEN conjunct2, THEN spec, THEN spec, THEN mp, OF g,
      THEN conjunct1, THEN spec, THEN mp, OF p]
  from a b show ?thesis by simp
qed

section \<open>The synchronous and the asynchronous operation\<close>

text \<open>
  C1. The claim is that \<open>chat_completion_sync\<close> and \<open>chat_completion\<close> return the same
  envelope on every request and every outcome of the provider call. The code does not:
  when the provider call raises \<open>Error 401: also 503\<close>, \<open>chat_completion\<close> classifies
  the message and answers with the code \<open>INVALID_API_KEY\<close> and a fixed text, while
  \<open>chat_completion_sync\<close>, whose handler has no classification, answers with the code
  \<open>REQUEST_FAILED\<close> and the raw message.
\<close>

theorem sync_differs_from_async_on_error:
  "fst (chat_completion (raising ''Error 401: also 503'') openai_only ''t0'' hello ''auto'' None
          (7/10) 2000 [])
     = Inr \<lparr>success = False, data = None,
            error = Some ''Invalid API key. Please check your credentials.'',
            provider = Some ''openai'', model = None, code = Some ''INVALID_API_KEY'',
            timestamp = Some ''t0''\<rparr> \<and>
   fst (chat_completion_sync (raising ''Error 401: also 503'') openai_only ''t0'' hello ''auto'' None
          (7/10) 2000 [])
     = Inr \<lparr>success = False, data = None, error = Some ''Error 401: also 503'',
            provider = Some ''openai'', model = None, code = Some ''REQUEST_FAILED'',
            timestamp = Some ''t0''\<rparr> \<and>
   chat_completion (raising ''Error 401: also 503'') openai_only ''t0'' hello ''auto'' None
     (7/10) 2000 []
     \<noteq> chat_completion_sync (raising ''Error 401: also 503'') openai_only ''t0'' hello ''auto'' None
         (7/10) 2000 []"
  by (simp add: chat_completion_def chat_completion_sync_def get_client_def openai_only_def
        raising_def try_except_def completion_body_def create_error_response_def Let_def)

section \<open>Error classification\<close>

lemma lower_examples:
  "lower ''Error 429: slow down'' = ''error 429: slow down''"
  "lower ''INVALID request'' = ''invalid request''"
  "lower ''Rate Limit reached'' = ''rate limit reached''"
  by code_simp+

text \<open>
  C2. When the call issued by \<open>chat_completion\<close> raises with the message \<open>s\<close>, the
  envelope is a failure whose code is found by the first match in this order:
  \<open>INVALID_API_KEY\<close> when \<open>s\<close> contains \<open>401\<close> or some part of \<open>s\<close> is
  \<open>invalid\<close> up to letter case; otherwise \<open>RATE_LIMIT\<close> when \<open>s\<close> contains
  \<open>429\<close> or some part of \<open>s\<close> is \<open>rate limit\<close> up to letter case; otherwise
  \<open>SERVICE_UNAVAILABLE\<close> when \<open>s\<close> contains \<open>500\<close>, \<open>502\<close> or \<open>503\<close>;
  otherwise \<open>UNKNOWN_ERROR\<close>. The witness runs the two inputs of the specification,
  \<open>Error 401: also 503\<close> giving \<open>INVALID_API_KEY\<close> and a message with \<open>429\<close> and
  unrelated text giving \<open>RATE_LIMIT\<close>, and two messages whose marker is in upper or
  mixed case: \<open>INVALID request\<close> and \<open>Rate Limit reached\<close>.
\<close>

theorem error_classification:
  assumes "get_client self prov = Some ci"
    and "create (ci_client ci)
           \<lparr>kw_model = py_or mdl (get_model (ci_provider_name ci) ''chat''),
            kw_messages = messages, kw_temperature = Some temperature,
            kw_max_tokens = max_tokens\<rparr> = Inl (Exception s)"
  shows "\<exists>env. fst (chat_completion create self now messages prov mdl temperature max_tokens
                      trace) = Inr env \<and>
           \<not> success env \<and>
           code env =
             Some (if (\<exists>u w. s = u @ ''401'' @ w) \<or>
                      (\<exists>u v w. s = u @ v @ w \<and> lower v = ''invalid'')
                   then ''INVALID_API_KEY''
                   else if (\<exists>u w. s = u @ ''429'' @ w) \<or>
                           (\<exists>u v w. s = u @ v @ w \<and> lower v = ''rate limit'')
                   then ''RATE_LIMIT''
                   else if (\<exists>u w. s = u @ ''500'' @ w) \<or> (\<exists>u w. s = u @ ''502'' @ w) \<or>
                           (\<exists>u w. s = u @ ''503'' @ w)
                   then ''SERVICE_UNAVAILABLE''
                   else ''UNKNOWN_ERROR'')"
  using chat_completion_raise [where create = create, OF assms]
  unfolding contains_lower_iff [symmetric] contains_iff [symmetric]
  by (simp add: create_error_response_def)

theorem error_classification_witness:
  "(\<exists>env. fst (chat_completion (raising ''Error 401: also 503'') openai_only ''t0'' hello
               ''auto'' None (7/10) 2000 []) = Inr env \<and>
          \<not> success env \<and> code env = Some ''INVALID_API_KEY'') \<and>
   (\<exists>env. fst (chat_completion (raising ''Error 429: slow down'') openai_only ''t0'' hello
               ''auto'' None (7/10) 2000 []) = Inr env \<and>
          \<not> success env \<and> code env = Some ''RATE_LIMIT'') \<and>
   (\<exists>env. fst (chat_completion (raising ''INVALID request'') openai_only ''t0'' hello
               ''auto'' None (7/10) 2000 []) = Inr env \<and>
          \<not> success env \<and> code env = Some ''INVALID_API_KEY'') \<and>
   (\<exists>env. fst (chat_completion (raising ''Rate Limit reached'') openai_only ''t0'' hello
               ''auto'' None (7/10) 2000 []) = Inr env \<and>
          \<not> success env \<and> code env = Some ''RATE_LIMIT'')"
proof -
  let ?ci = "\<lparr>ci_client = 1 :: nat, ci_provider_name = ''openai''\<rparr>"
  have g: "get_client openai_only ''auto'' = Some ?ci"
    by (simp add: get_client_def openai_only_def)
  have r: "raising s (ci_client ?ci)
      \<lparr>kw_model = py_or None (get_model (ci_provider_name ?ci) ''chat''),
       kw_messages = hello, kw_temperature = Some (7/10), kw_max_tokens = 2000\<rparr>
      = Inl (Exception s)" for s
    by (simp add: raising_def)
  have c1: "\<exists>u w. ''Error 401: also 503'' = u @ ''401'' @ w"
    unfolding contains_iff [symmetric] by simp
  have c2: "\<not> (\<exists>u w. ''Error 429: slow down'' = u @ ''401'' @ w)"
    unfolding contains_iff [symmetric] by simp
  have c3: "\<not> (\<exists>u v w. ''Error 429: slow down'' = u @ v @ w \<and> lower v = ''invalid'')"
    unfolding contains_lower_iff [symmetric] by (simp add: lower_examples)
  have c4: "\<exists>u w. ''Error 429: slow down'' = u @ ''429'' @ w"
    unfolding contains_iff [symmetric] by simp
  have c5: "\<exists>u v w. ''INVALID request'' = u @ v @ w \<and> lower v = ''invalid''"
    unfolding contains_lower_iff [symmetric] by (simp add: lower_examples)
  have c6: "\<not> (\<exists>u w. ''Rate Limit reached'' = u @ ''401'' @ w)"
    unfolding contains_iff [symmetric] by simp
  have c7: "\<not> (\<exists>u v w. ''Rate Limit reached'' = u @ v @ w \<and> lower v = ''invalid'')"
    unfolding contains_lower_iff [symmetric] by (simp add: lower_examples)
  have c8: "\<exists>u v w. ''Rate Limit reached'' = u @ v @ w \<and> lower v = ''rate limit''"
    unfolding contains_lower_iff [symmetric] by (simp add: lower_examples)
  note e1 = error_classification [where create = "raising ''Error 401: also 503''"
      and s = "''Error 401: also 503''" and now = "''t0''" and trace = "[]", OF g r,
      unfolded Eq_TrueI [OF c1] simp_thms if_True]
  note e2 = error_classification [where create = "raising ''Error 429: slow down''"
      and s = "''Error 429: slow down''" and now = "''t0''" and trace = "[]", OF g r,
      unfolded Eq_FalseI [OF c2] Eq_FalseI [OF c3] Eq_TrueI [OF c4] simp_thms if_True if_False]
  note e3 = error_classification [where create = "raising ''INVALID request''"
      and s = "''INVALID request''" and now = "''t0''" and trace = "[]", OF g r,
      unfolded Eq_TrueI [OF c5] simp_thms if_True]
  note e4 = error_classification [where create = "raising ''Rate Limit reached''"
      and s = "''Rate Limit reached''" and now = "''t0''" and trace = "[]", OF g r,
      unfolded Eq_FalseI [OF c6] Eq_FalseI [OF c7] Eq_TrueI [OF c8] simp_thms if_True if_False]
  from e1 e2 e3 e4 show ?thesis by (intro conjI)
qed

section \<open>An explicit provider without a handle\<close>

text \<open>
  C3, as stated, fails on the code of the envelope. A request that names \<open>openai\<close>
  on a service that only has the OpenRouter handle gets a failure envelope whose code
  is unset, not \<open>PROVIDER_UNAVAILABLE\<close>.
\<close>

theorem provider_unavailable_code_unset:
  "(let r = chat_completion_sync (replying (reply_with (Some ''hi''))) openrouter_only ''t0'' hello
              ''openai'' None (7/10) 2000 []
    in r = (Inr \<lparr>success = False, data = None,
                  error = Some ''No AI provider available. Please configure API keys in .env file.'',
                  provider = None, model = None, code = None, timestamp = Some ''t0''\<rparr>, []) \<and>
       code (projr (fst r)) \<noteq> Some ''PROVIDER_UNAVAILABLE'')"
  by (simp add: run_simps)

text \<open>
  C3, amended. For a request that names a provider other than \<open>auto\<close> for which the
  service has no handle, both completion operations return the failure envelope
  \<open>No AI provider available. Please configure API keys in .env file.\<close> with no
  provider, no model and no code, and the list of issued calls is unchanged: no
  transport is contacted and no other provider is used.
\<close>

theorem explicit_unavailable_provider:
  assumes "prov \<noteq> ''auto''"
    and "prov = ''openai'' \<longrightarrow> openai_client self = None"
    and "prov = ''openrouter'' \<longrightarrow> openrouter_client self = None"
  shows "chat_completion_sync create self now messages prov mdl temperature max_tokens trace
           = (Inr \<lparr>success = False, data = None,
                   error = Some ''No AI provider available. Please configure API keys in .env file.'',
                   provider = None, model = None, code = None, timestamp = Some now\<rparr>, trace) \<and>
         chat_completion create self now messages prov mdl temperature max_tokens trace
           = (Inr \<lparr>success = False, data = None,
                   error = Some ''No AI provider available. Please configure API keys in .env file.'',
                   provider = None, model = None, code = None, timestamp = Some now\<rparr>, trace)"
proof -
  from assms have "get_client self prov = None"
    by (auto simp: get_client_def Let_def)
  then show ?thesis
    by (simp add: no_client_sync no_client_async create_error_response_def)
qed

theorem explicit_unavailable_provider_witness:
  "''openai'' \<noteq> ''auto'' \<and> openai_client openrouter_only = None \<and>
   chat_completion_sync (replying (reply_with (Some ''hi''))) openrouter_only ''t0'' hello
     ''openai'' None (7/10) 2000 []
     = (Inr \<lparr>success = False, data = None,
             error = Some ''No AI provider available. Please configure API keys in .env file.'',
             provider = None, model = None, code = None, timestamp = Some ''t0''\<rparr>, [])"
proof -
  have h1: "''openai'' \<noteq> ''auto''" by simp
  have h2: "''openai'' = ''openai'' \<longrightarrow> openai_client openrouter_only = None"
    by (simp add: openrouter_only_def)
  have h3: "''openai'' = ''openrouter'' \<longrightarrow> openrouter_client openrouter_only = None"
    by simp
  from explicit_unavailable_provider [OF h1 h2 h3] h1 h2 show ?thesis by simp
qed

section \<open>Replies without content\<close>

text \<open>
  C5. For a request whose provider resolves to a handle: when the issued call gets a
  reply whose list of choices is empty, or whose first choice has no content or the
  empty string as content, both completion operations return the failure envelope with
  the error \<open>No content returned from AI service\<close>, the name of the resolved provider
  (\<open>openai\<close> or \<open>openrouter\<close>) and no code, after exactly that one call.
\<close>

theorem empty_content_failure:
  assumes "get_client self prov = Some ci"
    and "create (ci_client ci)
           \<lparr>kw_model = py_or mdl (get_model (ci_provider_name ci) ''chat''),
            kw_messages = messages, kw_temperature = Some temperature,
            kw_max_tokens = max_tokens\<rparr> = Inr resp"
    and "choices resp = [] \<or> message_content (hd (choices resp)) = None \<or>
         message_content (hd (choices resp)) = Some []"
  shows "chat_completion create self now messages prov mdl temperature max_tokens trace =
           (Inr \<lparr>success = False, data = None,
                  error = Some ''No content returned from AI service'',
                  provider = Some (ci_provider_name ci), model = None, code = None,
                  timestamp = Some now\<rparr>,
            trace @ [(ci_client ci,
                      \<lparr>kw_model = py_or mdl (get_model (ci_provider_name ci) ''chat''),
                       kw_messages = messages, kw_temperature = Some temperature,
                       kw_max_tokens = max_tokens\<rparr>)]) \<and>
         chat_completion_sync create self now messages prov mdl temperature max_tokens trace =
           (Inr \<lparr>success = False, data = None,
                  error = Some ''No content returned from AI service'',
                  provider = Some (ci_provider_name ci), model = None, code = None,
                  timestamp = Some now\<rparr>,
            trace @ [(ci_client ci,
                      \<lparr>kw_model = py_or mdl (get_model (ci_provider_name ci) ''chat''),
                       kw_messages = messages, kw_temperature = Some temperature,
                       kw_max_tokens = max_tokens\<rparr>)]) \<and>
         (ci_provider_name ci = ''openai'' \<or> ci_provider_name ci = ''openrouter'')"
proof (intro conjI)
  show "chat_completion create self now messages prov mdl temperature max_tokens trace =
           (Inr \<lparr>success = False, data = None,
                  error = Some ''No content returned from AI service'',
                  provider = Some (ci_provider_name ci), model = None, code = None,
                  timestamp = Some now\<rparr>,
            trace @ [(ci_client ci,
                      \<lparr>kw_model = py_or mdl (get_model (ci_provider_name ci) ''chat''),
                       kw_messages = messages, kw_temperature = Some temperature,
                       kw_max_tokens = max_tokens\<rparr>)])"
    by (simp only: chat_completion_reply [where create = create, OF assms(1,2)]
          completion_body_no_content [where create = create, OF assms(2,3)])
  show "chat_completion_sync create self now messages prov mdl temperature max_tokens trace =
           (Inr \<lparr>success = False, data = None,
                  error = Some ''No content returned from AI service'',
                  provider = Some (ci_provider_name ci), model = None, code = None,
                  timestamp = Some now\<rparr>,
            trace @ [(ci_client ci,
                      \<lparr>kw_model = py_or mdl (get_model (ci_provider_name ci) ''chat''),
                       kw_messages = messages, kw_temperature = Some temperature,
                       kw_max_tokens = max_tokens\<rparr>)])"
    by (simp only: chat_completion_sync_reply [where create = create, OF assms(1,2)]
          completion_body_no_content [where create = create, OF assms(2,3)])
  show "ci_provider_name ci = ''openai'' \<or> ci_provider_name ci = ''openrouter''"
    using get_client_cases [OF assms(1)] by blast
qed

theorem empty_content_failure_witness:
  "get_client both_clients ''auto'' = Some \<lparr>ci_client = 2, ci_provider_name = ''openrouter''\<rparr> \<and>
   choices no_choices = [] \<and>
   chat_completion (replying no_choices) both_clients ''t0'' hello ''auto'' None (7/10) 2000 []
     = (Inr \<lparr>success = False, data = None,
              error = Some ''No content returned from AI service'',
              provider = Some ''openrouter'', model = None, code = None,
              timestamp = Some ''t0''\<rparr>,
        [(2, \<lparr>kw_model = ''microsoft/wizardlm-2-8x22b'', kw_messages = hello,
               kw_temperature = Some (7/10), kw_max_tokens = 2000\<rparr>)]) \<and>
   chat_completion_sync (replying no_choices) both_clients ''t0'' hello ''auto'' None (7/10) 2000 []
     = (Inr \<lparr>success = False, data = None,
              error = Some ''No content returned from AI service'',
              provider = Some ''openrouter'', model = None, code = None,
              timestamp = Some ''t0''\<rparr>,
        [(2, \<lparr>kw_model = ''microsoft/wizardlm-2-8x22b'', kw_messages = hello,
               kw_temperature = Some (7/10), kw_max_tokens = 2000\<rparr>)])"
proof -
  let ?ci = "\<lparr>ci_client = 2 :: nat, ci_provider_name = ''openrouter''\<rparr>"
  have g: "get_client both_clients ''auto'' = Some ?ci"
    by (simp add: get_client_def both_clients_def)
  have r: "replying no_choices (ci_client ?ci)
      \<lparr>kw_model = py_or None (get_model (ci_provider_name ?ci) ''chat''),
       kw_messages = hello, kw_temperature = Some (7/10), kw_max_tokens = 2000\<rparr>
      = Inr no_choices"
    by (simp add: replying_def)
  have c: "choices no_choices = [] \<or> message_content (hd (choices no_choices)) = None \<or>
      message_content (hd (choices no_choices)) = Some []"
    by (simp add: no_choices_def)
  have m: "py_or None (get_model ''openrouter'' ''chat'') = ''microsoft/wizardlm-2-8x22b''"
    by (simp add: py_or_def truthy_def get_model_def PROVIDER_CONFIGS_def dict_get_def)
  have n: "choices no_choices = []" by (simp add: no_choices_def)
  note th = empty_content_failure [where create = "replying no_choices" and now = "''t0''"
      and trace = "[]", OF g r c]
  from th g n show ?thesis by (simp add: m)
qed

section \<open>Replies with content\<close>

text \<open>
  C8. For a request whose provider resolves to a handle: both completion operations
  issue one call whose messages are the caller's messages, and when the reply's first
  choice has a non-empty content \<open>c\<close>, both return the success envelope whose content
  is \<open>strip c\<close>, with the dumped usage, the finish reason, the provider name and the
  model of the call. The string \<open>strip c\<close> is \<open>c\<close> without a leading and a trailing
  run of whitespace characters, and it neither starts nor ends with a whitespace
  character.
\<close>

theorem success_content_is_stripped:
  assumes "get_client self prov = Some ci"
    and "create (ci_client ci)
           \<lparr>kw_model = py_or mdl (get_model (ci_provider_name ci) ''chat''),
            kw_messages = messages, kw_temperature = Some temperature,
            kw_max_tokens = max_tokens\<rparr> = Inr resp"
    and "choices resp = ch # rest"
    and "message_content ch = Some c"
    and "c \<noteq> []"
  shows "chat_completion create self now messages prov mdl temperature max_tokens trace =
           (Inr \<lparr>success = True,
                  data = Some (Completion (strip c) (map_option model_dump (usage resp))
                                 (finish_reason ch)),
                  error = None, provider = Some (ci_provider_name ci),
                  model = Some (py_or mdl (get_model (ci_provider_name ci) ''chat'')),
                  code = None, timestamp = Some now\<rparr>,
            trace @ [(ci_client ci,
                      \<lparr>kw_model = py_or mdl (get_model (ci_provider_name ci) ''chat''),
                       kw_messages = messages, kw_temperature = Some temperature,
                       kw_max_tokens = max_tokens\<rparr>)]) \<and>
         chat_completion_sync create self now messages prov mdl temperature max_tokens trace =
           (Inr \<lparr>success = True,
                  data = Some (Completion (strip c) (map_option model_dump (usage resp))
                                 (finish_reason ch)),
                  error = None, provider = Some (ci_provider_name ci),
                  model = Some (py_or mdl (get_model (ci_provider_name ci) ''chat'')),
                  code = None, timestamp = Some now\<rparr>,
            trace @ [(ci_client ci,
                      \<lparr>kw_model = py_or mdl (get_model (ci_provider_name ci) ''chat''),
                       kw_messages = messages, kw_temperature = Some temperature,
                       kw_max_tokens = max_tokens\<rparr>)]) \<and>
         (\<exists>l r. c = l @ strip c @ r \<and> list_all isspace l \<and> list_all isspace r) \<and>
         (\<forall>x t. strip c \<noteq> x # t \<or> \<not> isspace x) \<and>
         (\<forall>x t. strip c \<noteq> t @ [x] \<or> \<not> isspace x)"
proof (intro conjI)
  show "chat_completion create self now messages prov mdl temperature max_tokens trace =
           (Inr \<lparr>success = True,
                  data = Some (Completion (strip c) (map_option model_dump (usage resp))
                                 (finish_reason ch)),
                  error = None, provider = Some (ci_provider_name ci),
                  model = Some (py_or mdl (get_model (ci_provider_name ci) ''chat'')),
                  code = None, timestamp = Some now\<rparr>,
            trace @ [(ci_client ci,
                      \<lparr>kw_model = py_or mdl (get_model (ci_provider_name ci) ''chat''),
                       kw_messages = messages, kw_temperature = Some temperature,
                       kw_max_tokens = max_tokens\<rparr>)])"
    by (simp only: chat_completion_reply [where create = create, OF assms(1,2)]
          completion_body_content [where create = create, OF assms(2,3,4,5)])
  show "chat_completion_sync create self now messages prov mdl temperature max_tokens trace =
           (Inr \<lparr>success = True,
                  data = Some (Completion (strip c) (map_option model_dump (usage resp))
                                 (finish_reason ch)),
                  error = None, provider = Some (ci_provider_name ci),
                  model = Some (py_or mdl (get_model (ci_provider_name ci) ''chat'')),
                  code = None, timestamp = Some now\<rparr>,
            trace @ [(ci_client ci,
                      \<lparr>kw_model = py_or mdl (get_model (ci_provider_name ci) ''chat''),
                       kw_messages = messages, kw_temperature = Some temperature,
                       kw_max_tokens = max_tokens\<rparr>)])"
    by (simp only: chat_completion_sync_reply [where create = create, OF assms(1,2)]
          completion_body_content [where create = create, OF assms(2,3,4,5)])
  have "c = takeWhile isspace c @ strip c @ rev (takeWhile isspace (rev (dropWhile isspace c)))"
    by (rule strip_decomp)
  moreover have "list_all isspace (takeWhile isspace c)"
    "list_all isspace (rev (takeWhile isspace (rev (dropWhile isspace c))))"
    by (auto simp: list_all_iff dest: set_takeWhileD)
  ultimately show "\<exists>l r. c = l @ strip c @ r \<and> list_all isspace l \<and> list_all isspace r"
    by blast
  show "\<forall>x t. strip c \<noteq> x # t \<or> \<not> isspace x"
    using strip_no_leading [of c] by blast
  show "\<forall>x t. strip c \<noteq> t @ [x] \<or> \<not> isspace x"
    using strip_no_trailing [of c] by blast
qed

theorem success_content_is_stripped_witness:
  "strip '' Paris '' = ''Paris'' \<and>
   chat_completion (replying (reply_with (Some '' Paris ''))) openai_only ''t0'' hello ''auto''
       None (7/10) 2000 []
     = (Inr \<lparr>success = True, data = Some (Completion ''Paris'' None (Some ''stop'')),
              error = None, provider = Some ''openai'', model = Some ''gpt-3.5-turbo'',
              code = None, timestamp = Some ''t0''\<rparr>,
        [(1, \<lparr>kw_model = ''gpt-3.5-turbo'', kw_messages = hello,
               kw_temperature = Some (7/10), kw_max_tokens = 2000\<rparr>)]) \<and>
   chat_completion_sync (replying (reply_with (Some '' Paris ''))) openai_only ''t0'' hello
       ''auto'' None (7/10) 2000 []
     = (Inr \<lparr>success = True, data = Some (Completion ''Paris'' None (Some ''stop'')),
              error = None, provider = Some ''openai'', model = Some ''gpt-3.5-turbo'',
              code = None, timestamp = Some ''t0''\<rparr>,
        [(1, \<lparr>kw_model = ''gpt-3.5-turbo'', kw_messages = hello,
               kw_temperature = Some (7/10), kw_max_tokens = 2000\<rparr>)])"
proof -
  let ?ci = "\<lparr>ci_client = 1 :: nat, ci_provider_name = ''openai''\<rparr>"
  let ?ch = "\<lparr>message_content = Some '' Paris '', finish_reason = Some ''stop''\<rparr>"
  let ?create = "replying (reply_with (Some '' Paris ''))"
  have g: "get_client openai_only ''auto'' = Some ?ci"
    by (simp add: get_client_def openai_only_def)
  have r: "?create (ci_client ?ci)
      \<lparr>kw_model = py_or None (get_model (ci_provider_name ?ci) ''chat''),
       kw_messages = hello, kw_temperature = Some (7/10), kw_max_tokens = 2000\<rparr>
      = Inr (reply_with (Some '' Paris ''))"
    by (simp add: replying_def)
  have c: "choices (reply_with (Some '' Paris '')) = ?ch # []"
    by (simp add: reply_with_def)
  have k: "message_content ?ch = Some '' Paris ''" by simp
  have n: "'' Paris '' \<noteq> []" by simp
  have s: "strip '' Paris '' = ''Paris''" by (simp add: strip_def isspace_def)
  have m: "py_or None (get_model ''openai'' ''chat'') = ''gpt-3.5-turbo''"
    by (simp add: py_or_def truthy_def get_model_def PROVIDER_CONFIGS_def dict_get_def)
  have u: "usage (reply_with (Some '' Paris '')) = None" by (simp add: reply_with_def)
  note th = success_content_is_stripped [where create = ?create and now = "''t0''"
      and trace = "[]", OF g r c k n]
  from th [THEN conjunct1] th [THEN conjunct2, THEN conjunct1] s
  show ?thesis by (simp add: m u)
qed

text \<open>
  C9. For a request whose provider resolves to a handle, and any reply to the issued
  call: a first choice whose content is non-empty and consists of whitespace only makes
  both completion operations return a success envelope with the empty string as
  content; and either operation returns a failure envelope only when the list of
  choices is empty or the first choice's content is absent or the empty string.
\<close>

theorem whitespace_only_content_succeeds:
  assumes "get_client self prov = Some ci"
    and "create (ci_client ci)
           \<lparr>kw_model = py_or mdl (get_model (ci_provider_name ci) ''chat''),
            kw_messages = messages, kw_temperature = Some temperature,
            kw_max_tokens = max_tokens\<rparr> = Inr resp"
  shows "(\<forall>ch rest c.
            choices resp = ch # rest \<and> message_content ch = Some c \<and> c \<noteq> [] \<and>
            list_all isspace c \<longrightarrow>
            fst (chat_completion create self now messages prov mdl temperature max_tokens trace)
              = Inr \<lparr>success = True,
                     data = Some (Completion [] (map_option model_dump (usage resp))
                                    (finish_reason ch)),
                     error = None, provider = Some (ci_provider_name ci),
                     model = Some (py_or mdl (get_model (ci_provider_name ci) ''chat'')),
                     code = None, timestamp = Some now\<rparr> \<and>
            fst (chat_completion_sync create self now messages prov mdl temperature max_tokens
                   trace)
              = Inr \<lparr>success = True,
                     data = Some (Completion [] (map_option model_dump (usage resp))
                                    (finish_reason ch)),
                     error = None, provider = Some (ci_provider_name ci),
                     model = Some (py_or mdl (get_model (ci_provider_name ci) ''chat'')),
                     code = None, timestamp = Some now\<rparr>) \<and>
         ((\<exists>env. fst (chat_completion create self now messages prov mdl temperature max_tokens
                        trace) = Inr env \<and> \<not> success env) \<longrightarrow>
          choices resp = [] \<or> message_content (hd (choices resp)) = None \<or>
          message_content (hd (choices resp)) = Some []) \<and>
         ((\<exists>env. fst (chat_completion_sync create self now messages prov mdl temperature
                        max_tokens trace) = Inr env \<and> \<not> success env) \<longrightarrow>
          choices resp = [] \<or> message_content (hd (choices resp)) = None \<or>
          message_content (hd (choices resp)) = Some [])"
proof -
  note a = chat_completion_reply [where create = create, OF assms]
  note b = chat_completion_sync_reply [where create = create, OF assms]
  have content: "completion_body create now (ci_client ci) (ci_provider_name ci)
        (py_or mdl (get_model (ci_provider_name ci) ''chat'')) messages temperature max_tokens
        trace =
      (Inr \<lparr>success = True,
             data = Some (Completion (strip c) (map_option model_dump (usage resp))
                            (finish_reason ch)),
             error = None, provider = Some (ci_provider_name ci),
             model = Some (py_or mdl (get_model (ci_provider_name ci) ''chat'')),
             code = None, timestamp = Some now\<rparr>,
       trace @ [(ci_client ci,
                 \<lparr>kw_model = py_or mdl (get_model (ci_provider_name ci) ''chat''),
                  kw_messages = messages, kw_temperature = Some temperature,
                  kw_max_tokens = max_tokens\<rparr>)])"
    if "choices resp = ch # rest" "message_content ch = Some c" "c \<noteq> []" for ch rest c
    using completion_body_content [where create = create, OF assms(2) that] .
  have fails: "choices resp = [] \<or> message_content (hd (choices resp)) = None \<or>
      message_content (hd (choices resp)) = Some []"
    if f: "\<exists>env. fst (completion_body create now (ci_client ci) (ci_provider_name ci)
        (py_or mdl (get_model (ci_provider_name ci) ''chat'')) messages temperature max_tokens
        trace) = Inr env \<and> \<not> success env"
  proof (rule ccontr)
    assume n: "\<not> (choices resp = [] \<or> message_content (hd (choices resp)) = None \<or>
      message_content (hd (choices resp)) = Some [])"
    then obtain ch rest where c: "choices resp = ch # rest" by (cases "choices resp") auto
    with n obtain c' where m: "message_content ch = Some c'" and e: "c' \<noteq> []" by auto
    from content [OF c m e] f show False by simp
  qed
  show ?thesis
  proof (intro conjI allI impI)
    fix ch rest c
    assume h: "choices resp = ch # rest \<and> message_content ch = Some c \<and> c \<noteq> [] \<and>
      list_all isspace c"
    then have s: "strip c = []" by (simp add: strip_all_space)
    from h have "choices resp = ch # rest" "message_content ch = Some c" "c \<noteq> []" by simp_all
    note k = content [OF this, unfolded s]
    show "fst (chat_completion create self now messages prov mdl temperature max_tokens trace)
              = Inr \<lparr>success = True,
                     data = Some (Completion [] (map_option model_dump (usage resp))
                                    (finish_reason ch)),
                     error = None, provider = Some (ci_provider_name ci),
                     model = Some (py_or mdl (get_model (ci_provider_name ci) ''chat'')),
                     code = None, timestamp = Some now\<rparr>"
      by (simp only: a k fst_conv)
    show "fst (chat_completion_sync create self now messages prov mdl temperature max_tokens
                   trace)
              = Inr \<lparr>success = True,
                     data = Some (Completion [] (map_option model_dump (usage resp))
                                    (finish_reason ch)),
                     error = None, provider = Some (ci_provider_name ci),
                     model = Some (py_or mdl (get_model (ci_provider_name ci) ''chat'')),
                     code = None, timestamp = Some now\<rparr>"
      by (simp only: b k fst_conv)
  next
    assume "\<exists>env. fst (chat_completion create self now messages prov mdl temperature max_tokens
                        trace) = Inr env \<and> \<not> success env"
    then show "choices resp = [] \<or> message_content (hd (choices resp)) = None \<or>
          message_content (hd (choices resp)) = Some []"
      unfolding a by (rule fails)
  next
    assume "\<exists>env. fst (chat_completion_sync create self now messages prov mdl temperature
                        max_tokens trace) = Inr env \<and> \<not> success env"
    then show "choices resp = [] \<or> message_content (hd (choices resp)) = None \<or>
          message_content (hd (choices resp)) = Some []"
      unfolding b by (rule fails)
  qed
qed

theorem whitespace_only_content_succeeds_witness:
  "list_all isspace ''   '' \<and>
   fst (chat_completion (replying (reply_with (Some ''   ''))) openai_only ''t0'' hello ''auto''
          None (7/10) 2000 [])
     = Inr \<lparr>success = True, data = Some (Completion [] None (Some ''stop'')),
            error = None, provider = Some ''openai'', model = Some ''gpt-3.5-turbo'',
            code = None, timestamp = Some ''t0''\<rparr> \<and>
   fst (chat_completion_sync (replying (reply_with (Some ''   ''))) openai_only ''t0'' hello
          ''auto'' None (7/10) 2000 [])
     = Inr \<lparr>success = True, data = Some (Completion [] None (Some ''stop'')),
            error = None, provider = Some ''openai'', model = Some ''gpt-3.5-turbo'',
            code = None, timestamp = Some ''t0''\<rparr>"
proof -
  let ?ci = "\<lparr>ci_client = 1 :: nat, ci_provider_name = ''openai''\<rparr>"
  let ?ch = "\<lparr>message_content = Some ''   '', finish_reason = Some ''stop''\<rparr>"
  let ?create = "replying (reply_with (Some ''   ''))"
  have g: "get_client openai_only ''auto'' = Some ?ci"
    by (simp add: get_client_def openai_only_def)
  have r: "?create (ci_client ?ci)
      \<lparr>kw_model = py_or None (get_model (ci_provider_name ?ci) ''chat''),
       kw_messages = hello, kw_temperature = Some (7/10), kw_max_tokens = 2000\<rparr>
      = Inr (reply_with (Some ''   ''))"
    by (simp add: replying_def)
  have w: "list_all isspace ''   ''" by (simp add: isspace_def)
  have c: "choices (reply_with (Some ''   '')) = ?ch # [] \<and>
      message_content ?ch = Some ''   '' \<and> ''   '' \<noteq> [] \<and> list_all isspace ''   ''"
    using w by (simp add: reply_with_def)
  have m: "py_or None (get_model ''openai'' ''chat'') = ''gpt-3.5-turbo''"
    by (simp add: py_or_def truthy_def get_model_def PROVIDER_CONFIGS_def dict_get_def)
  have u: "usage (reply_with (Some ''   '')) = None" by (simp add: reply_with_def)
  note th = whitespace_only_content_succeeds [where create = ?create and now = "''t0''"
      and trace = "[]", OF g r, THEN conjunct1, rule_format, OF c]
  from th w show ?thesis by (simp add: m u)
qed

section \<open>The model of the issued call\<close>

text \<open>
  C10. For a request whose provider resolves to a handle and whose explicit model is the
  empty string, the model of the call that both completion operations issue is not the
  empty string but the \<open>chat\<close> model of the resolved provider in \<open>PROVIDER_CONFIGS\<close>:
  \<open>gpt-3.5-turbo\<close> for \<open>openai\<close> and \<open>microsoft/wizardlm-2-8x22b\<close> for
  \<open>openrouter\<close>. And \<open>_get_model\<close> returns \<open>gpt-3.5-turbo\<close> for every provider
  identifier that is not a key of \<open>PROVIDER_CONFIGS\<close>, whatever the model type.
\<close>

theorem empty_model_falls_back:
  assumes "get_client self prov = Some ci"
  shows "snd (chat_completion create self now messages prov (Some []) temperature max_tokens
                trace)
           = trace @ [(ci_client ci,
                       \<lparr>kw_model = get_model (ci_provider_name ci) ''chat'',
                        kw_messages = messages, kw_temperature = Some temperature,
                        kw_max_tokens = max_tokens\<rparr>)] \<and>
         snd (chat_completion_sync create self now messages prov (Some []) temperature
                max_tokens trace)
           = trace @ [(ci_client ci,
                       \<lparr>kw_model = get_model (ci_provider_name ci) ''chat'',
                        kw_messages = messages, kw_temperature = Some temperature,
                        kw_max_tokens = max_tokens\<rparr>)] \<and>
         get_model (ci_provider_name ci) ''chat'' =
           (if ci_provider_name ci = ''openrouter'' then ''microsoft/wizardlm-2-8x22b''
            else ''gpt-3.5-turbo'') \<and>
         get_model ''openai'' ''chat'' = ''gpt-3.5-turbo'' \<and>
         get_model ''openrouter'' ''chat'' = ''microsoft/wizardlm-2-8x22b'' \<and>
         (\<forall>p t. map_of PROVIDER_CONFIGS p = None \<longrightarrow> get_model p t = ''gpt-3.5-turbo'')"
proof (intro conjI)
  have p: "py_or (Some []) d = d" for d by (simp add: py_or_def truthy_def)
  show "snd (chat_completion create self now messages prov (Some []) temperature max_tokens
                trace)
           = trace @ [(ci_client ci,
                       \<lparr>kw_model = get_model (ci_provider_name ci) ''chat'',
                        kw_messages = messages, kw_temperature = Some temperature,
                        kw_max_tokens = max_tokens\<rparr>)]"
    using assms by (simp add: chat_completion_trace p)
  show "snd (chat_completion_sync create self now messages prov (Some []) temperature
                max_tokens trace)
           = trace @ [(ci_client ci,
                       \<lparr>kw_model = get_model (ci_provider_name ci) ''chat'',
                        kw_messages = messages, kw_temperature = Some temperature,
                        kw_max_tokens = max_tokens\<rparr>)]"
    using assms by (simp add: chat_completion_sync_trace p)
  show a: "get_model ''openai'' ''chat'' = ''gpt-3.5-turbo''"
    by (simp add: get_model_def PROVIDER_CONFIGS_def dict_get_def)
  show b: "get_model ''openrouter'' ''chat'' = ''microsoft/wizardlm-2-8x22b''"
    by (simp add: get_model_def PROVIDER_CONFIGS_def dict_get_def)
  from get_client_cases [OF assms] a b
  show "get_model (ci_provider_name ci) ''chat'' =
           (if ci_provider_name ci = ''openrouter'' then ''microsoft/wizardlm-2-8x22b''
            else ''gpt-3.5-turbo'')"
    by auto
  show "\<forall>p t. map_of PROVIDER_CONFIGS p = None \<longrightarrow> get_model p t = ''gpt-3.5-turbo''"
    by (simp add: get_model_def dict_get_def)
qed

theorem empty_model_falls_back_witness:
  "snd (chat_completion (replying (reply_with (Some ''hi''))) both_clients ''t0'' hello ''auto''
          (Some []) (7/10) 2000 [])
     = [(2, \<lparr>kw_model = ''microsoft/wizardlm-2-8x22b'', kw_messages = hello,
             kw_temperature = Some (7/10), kw_max_tokens = 2000\<rparr>)] \<and>
   snd (chat_completion_sync (replying (reply_with (Some ''hi''))) both_clients ''t0'' hello
          ''auto'' (Some []) (7/10) 2000 [])
     = [(2, \<lparr>kw_model = ''microsoft/wizardlm-2-8x22b'', kw_messages = hello,
             kw_temperature = Some (7/10), kw_max_tokens = 2000\<rparr>)] \<and>
   map_of PROVIDER_CONFIGS ''mistral'' = None \<and>
   get_model ''mistral'' ''chat_fast'' = ''gpt-3.5-turbo''"
proof -
  let ?ci = "\<lparr>ci_client = 2 :: nat, ci_provider_name = ''openrouter''\<rparr>"
  have g: "get_client both_clients ''auto'' = Some ?ci"
    by (simp add: get_client_def both_clients_def)
  have a: "map_of PROVIDER_CONFIGS ''mistral'' = None" by (simp add: PROVIDER_CONFIGS_def)
  note th = empty_model_falls_back [where create = "replying (reply_with (Some ''hi''))"
      and now = "''t0''" and trace = "[]" and messages = hello and temperature = "7/10"
      and max_tokens = 2000, OF g]
  note t1 = th [THEN conjunct1]
  note t2 = th [THEN conjunct2, THEN conjunct1]
  note m = th [THEN conjunct2, THEN conjunct2, THEN conjunct1]
  note d = th [THEN conjunct2, THEN conjunct2, THEN conjunct2, THEN conjunct2, THEN conjunct2,
      rule_format, OF a]
  from t1 t2 m a d show ?thesis by simp
qed

section \<open>Provider validation\<close>








end
